theory Spec2Isabelle
  imports Main "HOL-Library.Sublist"
begin

section \<open>Data model\<close>

text \<open>
  A conversation message is the dictionary \<^verbatim>\<open>{"role": ..., "content": ...}\<close> kept in
  \<^verbatim>\<open>st.session_state.messages\<close>; a turn in the provider's format is the dictionary
  \<^verbatim>\<open>{"role": ..., "parts": [{"text": ...}]}\<close> built in \<^verbatim>\<open>main\<close>, the parts held as
  the list of their texts. Python strings are character lists.
\<close>

record message =
  role :: string
  content :: string

record api_turn =
  api_role :: string
  parts :: "string list"

text \<open>
  The chat object is the handle \<^verbatim>\<open>model.start_chat(history=...)\<close> returns; it is created
  from a history and is otherwise opaque to the program.
\<close>

datatype chat = ChatSession "api_turn list"

text \<open>
  One attempt hands the provider a chat history and a message text
  (\<^verbatim>\<open>start_chat\<close> followed by \<^verbatim>\<open>send_message\<close>). The generation
  configuration, the safety settings and the model name are literals rebuilt unchanged at
  every attempt and take no part in the control flow.
\<close>

record request =
  req_history :: "api_turn list"
  req_message :: string

text \<open>
  The streaming response is iterated by \<^verbatim>\<open>main\<close>. A chunk either has no \<^verbatim>\<open>text\<close>
  attribute or carries a text; the iteration yields its chunks and then either ends or
  raises an exception whose \<^verbatim>\<open>str\<close> is recorded.
\<close>

datatype chunk = NoText | Text string

record response =
  chunks :: "chunk list"
  stream_error :: "string option"

text \<open>
  What the body of the \<^verbatim>\<open>try\<close> block does at one attempt is decided outside the
  program: it returns a response or raises an exception with some text. The provider is
  the sequence of these outcomes, one per attempt, the head first.
\<close>

datatype attempt = Succeeds response | Fails string

type_synonym provider = "nat \<Rightarrow> attempt"

definition rest :: "provider \<Rightarrow> provider" where
  "rest prov = (\<lambda>i. prov (Suc i))"

text \<open>
  The observable effects of a run, in the order they happen: the attempts, the warnings
  and errors shown, and the back-off sleeps of line 130. Calls that only draw the page
  (title, caption, the chat transcript, the placeholder and its pacing pause of line 214)
  change nothing the program reads back and are not recorded.
\<close>

datatype event =
    Attempt request
  | StWarning string
  | StError string
  | Sleep int
  | SidebarWarning string
  | SidebarError string

text \<open>
  A Python call either returns a value or lets an exception escape. The retry function
  returns a pair, or \<^verbatim>\<open>None\<close> when control falls off the end of the loop.
\<close>

datatype exn = ValueError string | OverflowError string | OSError string | TypeError string

datatype result = Tuple "response option" "chat option" | NoneValue

datatype outcome = Return result | Raise exn

section \<open>Strings\<close>

text \<open>
  \<^verbatim>\<open>str.lower\<close> on the letters A to Z; every other character is left alone. The
  substring test \<^verbatim>\<open>a in b\<close> is \<^const>\<open>sublist\<close>.
\<close>

definition lower_char :: "char \<Rightarrow> char" where
  "lower_char c =
     (case map_of (zip ''ABCDEFGHIJKLMNOPQRSTUVWXYZ'' ''abcdefghijklmnopqrstuvwxyz'') c of
        Some d \<Rightarrow> d
      | None \<Rightarrow> c)"

definition lower :: "string \<Rightarrow> string" where
  "lower s = map lower_char s"

text \<open>Decimal rendering of an integer, as an f-string interpolates it.\<close>

definition digit_char :: "nat \<Rightarrow> char" where
  "digit_char d = ''0123456789'' ! d"

function str_nat :: "nat \<Rightarrow> string" where
  "str_nat n = (if n < 10 then [digit_char n] else str_nat (n div 10) @ [digit_char (n mod 10)])"
  by pat_completeness auto
termination
  by (relation "measure id") auto

declare str_nat.simps [simp del]

definition str_int :: "int \<Rightarrow> string" where
  "str_int i = (if i < 0 then CHR ''-'' # str_nat (nat (- i)) else str_nat (nat i))"

text \<open>
  The interpreter refuses to render an integer of more than 4300 decimal digits, its
  default limit, and raises \<^verbatim>\<open>ValueError\<close> instead.
\<close>

definition int_max_str_digits :: nat where
  "int_max_str_digits = 4300"

definition str_int_error :: "int \<Rightarrow> exn option" where
  "str_int_error i =
     (if 10 ^ int_max_str_digits \<le> \<bar>i\<bar> then
        Some (ValueError (''Exceeds the limit (4300 digits) for integer string conversion; '' @
                          ''use sys.set_int_max_str_digits() to increase the limit''))
      else None)"

section \<open>The completion client\<close>

definition system_instruction :: string where
  "system_instruction =
   ''You are a healthcare assistant. Be CONCISE and DIRECT.\<newline>'' @
   ''\<newline>'' @
   ''INTERACTION FLOW:\<newline>'' @
   ''1. Ask for name\<newline>'' @
   ''2. Ask for age  \<newline>'' @
   ''3. Ask for gender\<newline>'' @
   ''4. Ask for location (city/area)\<newline>'' @
   ''5. Ask about symptoms/issue\<newline>'' @
   ''6. Provide brief diagnosis and treatment\<newline>'' @
   ''\<newline>'' @
   ''RESPONSE FORMAT:\<newline>'' @
   ''- Keep responses under 3 sentences\<newline>'' @
   ''- Be direct and professional\<newline>'' @
   ''- No lengthy explanations\<newline>'' @
   ''- Focus on essential information only\<newline>'' @
   ''\<newline>'' @
   ''DIAGNOSIS FORMAT:\<newline>'' @
   ''- Possible condition: [brief diagnosis]\<newline>'' @
   ''- First aid: [2-3 key steps]\<newline>'' @
   ''- Medication: [common treatments]\<newline>'' @
   ''- See a doctor immediately for proper diagnosis\<newline>'' @
   ''- Nearby hospitals: [provide 1-2 options based on location]\<newline>'' @
   ''\<newline>'' @
   ''LOCATION-BASED HOSPITALS:\<newline>'' @
   ''- Lagos: Lagos University Teaching Hospital, General Hospital Lagos\<newline>'' @
   ''- Abuja: University of Abuja Teaching Hospital, National Hospital Abuja  \<newline>'' @
   ''- Covenant University area: Covenant University Hospital https://maps.app.goo.gl/njSWK8Gj8JPmjv5SA\<newline>'' @
   ''- Port Harcourt: University of Port Harcourt Teaching Hospital\<newline>'' @
   ''- Kano: Aminu Kano Teaching Hospital\<newline>'' @
   ''- Ibadan: University College Hospital Ibadan\<newline>'' @
   ''\<newline>'' @
   ''Ask for location to provide specific nearby hospitals.''"

text \<open>
  Lines 107 to 117: a history that is neither \<^verbatim>\<open>None\<close> nor empty is handed to
  \<^verbatim>\<open>start_chat\<close> and the prompt is sent as it is; otherwise the chat starts without
  history and the prompt is sent behind the system instruction.
\<close>

definition prefixed_prompt :: "string \<Rightarrow> string" where
  "prefixed_prompt prompt = system_instruction @ ''\<newline>\<newline>User: '' @ prompt"

definition build_request :: "string \<Rightarrow> api_turn list option \<Rightarrow> request" where
  "build_request prompt conversation_history =
     (case conversation_history of
        Some (t # ts) \<Rightarrow> \<lparr>req_history = t # ts, req_message = prompt\<rparr>
      | _ \<Rightarrow> \<lparr>req_history = [], req_message = prefixed_prompt prompt\<rparr>)"

definition start_chat :: "api_turn list option \<Rightarrow> chat" where
  "start_chat conversation_history =
     (case conversation_history of
        Some (t # ts) \<Rightarrow> ChatSession (t # ts)
      | _ \<Rightarrow> ChatSession [])"

text \<open>Line 126: the test that decides whether a failure is retried.\<close>

definition is_overloaded :: "string \<Rightarrow> bool" where
  "is_overloaded error_message =
     (sublist ''503'' error_message \<and> sublist ''overloaded'' (lower error_message))"

definition retry_warning :: "int \<Rightarrow> int \<Rightarrow> int \<Rightarrow> string" where
  "retry_warning retry_delay retries max_retries =
     ''Model overloaded. Retrying in '' @ str_int retry_delay @ '' seconds... (Attempt '' @
     str_int retries @ ''/'' @ str_int max_retries @ '')''"

text \<open>The f-string renders its three numbers from left to right; the first refusal escapes.\<close>

definition retry_warning_error :: "int \<Rightarrow> int \<Rightarrow> int \<Rightarrow> exn option" where
  "retry_warning_error retry_delay retries max_retries =
     (case str_int_error retry_delay of
        Some x \<Rightarrow> Some x
      | None \<Rightarrow>
          (case str_int_error retries of
             Some x \<Rightarrow> Some x
           | None \<Rightarrow> str_int_error max_retries))"

definition max_retries_message :: string where
  "max_retries_message =
     ''Maximum retry attempts reached. The service is currently unavailable.''"

text \<open>
  \<^verbatim>\<open>time.sleep\<close> first converts the delay to nanoseconds in a signed 64-bit integer, which
  raises \<^verbatim>\<open>OverflowError\<close> for a delay of 9223372037 seconds or more in either
  direction, then raises \<^verbatim>\<open>ValueError\<close> for a negative delay, and then hands the delay
  to the sleep call of the platform. That call rejects a delay whose deadline it cannot
  represent, which depends on the platform and its clock; what it does is decided outside
  the program. Delays below \<open>10\<^sup>8\<close> seconds are within the range of every such call.
  \<^const>\<open>None\<close> stands for a sleep that returns.
\<close>

type_synonym platform = "int \<Rightarrow> exn option"

definition sure_sleep_limit :: int where
  "sure_sleep_limit = 100000000"

definition time_sleep :: "platform \<Rightarrow> int \<Rightarrow> exn option" where
  "time_sleep platform secs =
     (if secs \<le> - 9223372037 \<or> 9223372037 \<le> secs then
        Some (OverflowError ''timestamp too large to convert to C _PyTime_t'')
      else if secs < 0 then Some (ValueError ''sleep length must be non-negative'')
      else if secs < sure_sleep_limit then None
      else platform secs)"

text \<open>
  Lines 129 and 130 together: the exception, if any, that ends the step from a retried
  failure to the next attempt.
\<close>

definition retry_step_error :: "platform \<Rightarrow> int \<Rightarrow> int \<Rightarrow> int \<Rightarrow> exn option" where
  "retry_step_error platform retry_delay retries max_retries =
     (case retry_warning_error retry_delay retries max_retries of
        Some x \<Rightarrow> Some x
      | None \<Rightarrow> time_sleep platform retry_delay)"

definition prepend :: "event list \<Rightarrow> outcome \<times> event list \<Rightarrow> outcome \<times> event list" where
  "prepend evs r = (fst r, evs @ snd r)"

text \<open>
  The \<^verbatim>\<open>while\<close> loop of lines 39 to 139, entered with the current values of
  \<^verbatim>\<open>retries\<close> and \<^verbatim>\<open>retry_delay\<close>. The warning is rendered and \<^verbatim>\<open>time.sleep\<close>
  is called inside the handler, so an exception either raises escapes the function.
\<close>

function retry_loop ::
  "platform \<Rightarrow> provider \<Rightarrow> string \<Rightarrow> api_turn list option \<Rightarrow> int \<Rightarrow> int \<Rightarrow> int \<Rightarrow>
   outcome \<times> event list"
where
  "retry_loop platform prov prompt conversation_history max_retries retry_delay retries =
     (if retries \<le> max_retries then
        (case prov 0 of
           Succeeds resp \<Rightarrow>
             (Return (Tuple (Some resp) (Some (start_chat conversation_history))),
              [Attempt (build_request prompt conversation_history)])
         | Fails error_message \<Rightarrow>
             if is_overloaded error_message then
               if retries + 1 \<le> max_retries then
                 (case retry_warning_error retry_delay (retries + 1) max_retries of
                    Some x \<Rightarrow>
                      (Raise x, [Attempt (build_request prompt conversation_history)])
                  | None \<Rightarrow>
                      (case time_sleep platform retry_delay of
                         Some x \<Rightarrow>
                           (Raise x,
                            [Attempt (build_request prompt conversation_history),
                             StWarning (retry_warning retry_delay (retries + 1) max_retries)])
                       | None \<Rightarrow>
                           prepend
                             [Attempt (build_request prompt conversation_history),
                              StWarning (retry_warning retry_delay (retries + 1) max_retries),
                              Sleep retry_delay]
                             (retry_loop platform (rest prov) prompt conversation_history
                                max_retries (retry_delay * 2) (retries + 1))))
               else
                 (Return (Tuple None None),
                  [Attempt (build_request prompt conversation_history),
                   StError max_retries_message])
             else
               (Return (Tuple None None),
                [Attempt (build_request prompt conversation_history),
                 StError (''Error generating response: '' @ error_message)]))
      else (Return NoneValue, []))"
  by pat_completeness auto
termination
  by (relation "measure (\<lambda>(platform, prov, prompt, h, max_retries, retry_delay, retries).
        nat (max_retries + 1 - retries))") auto

declare retry_loop.simps [simp del]

definition generate_response_with_retry ::
  "platform \<Rightarrow> provider \<Rightarrow> string \<Rightarrow> api_turn list option \<Rightarrow> int \<Rightarrow> int \<Rightarrow> outcome \<times> event list"
where
  "generate_response_with_retry platform prov prompt conversation_history max_retries retry_delay =
     retry_loop platform prov prompt conversation_history max_retries retry_delay 0"

text \<open>
  Line 143 leaves \<^verbatim>\<open>max_retries\<close> and \<^verbatim>\<open>retry_delay\<close> to the defaults of the
  signature on line 34.
\<close>

definition default_max_retries :: int where
  "default_max_retries = 3"

definition default_retry_delay :: int where
  "default_retry_delay = 2"

definition generate_response ::
  "platform \<Rightarrow> provider \<Rightarrow> string \<Rightarrow> api_turn list option \<Rightarrow> outcome \<times> event list"
where
  "generate_response platform prov prompt conversation_history =
     generate_response_with_retry platform prov prompt conversation_history
       default_max_retries default_retry_delay"

section \<open>The orchestrator\<close>

text \<open>
  The session state holds the conversation, the chat handle and the cached key. Lines 151
  to 155 store an empty conversation and \<^verbatim>\<open>None\<close> where the keys are missing, and
  nothing reads them earlier, so a missing \<^verbatim>\<open>messages\<close> is the empty list and a missing
  \<^verbatim>\<open>chat_session\<close> is \<^const>\<open>None\<close>. For \<^verbatim>\<open>google_api_key\<close> the program tests
  whether the key is present.
\<close>

record session_state =
  messages :: "message list"
  chat_session :: "chat option"
  google_api_key :: "string option"

text \<open>
  What one run of the script reads from outside: the environment variable, the sidebar
  text field (empty when nothing was typed), whether \<^verbatim>\<open>genai.configure\<close> raises, the
  chat input (\<^verbatim>\<open>None\<close> when nothing was submitted), the provider and the sleep
  call of the platform.
\<close>

record inputs =
  env_google_api_key :: "string option"
  sidebar_text_input :: string
  configure_error :: "string option"
  chat_input :: "string option"
  provider :: provider
  sleep_platform :: platform

definition falsy :: "string option \<Rightarrow> bool" where
  "falsy k = (k = None \<or> k = Some [])"

definition setup_google_api :: "inputs \<Rightarrow> session_state \<Rightarrow> bool \<times> session_state \<times> event list" where
  "setup_google_api inp s =
     (let (api_key, s1) =
            (if falsy (env_google_api_key inp) then
               (case google_api_key s of
                  Some k \<Rightarrow> (Some k, s)
                | None \<Rightarrow>
                    (let k = sidebar_text_input inp
                     in (Some k, if k \<noteq> [] then s\<lparr>google_api_key := Some k\<rparr> else s)))
             else (env_google_api_key inp, s))
      in if falsy api_key then
           (False, s1, [SidebarWarning ''Please enter your Google AI API key to continue''])
         else
           (case configure_error inp of
              None \<Rightarrow> (True, s1, [])
            | Some e \<Rightarrow> (False, s1, [SidebarError (''Error initializing Google AI: '' @ e)])))"

definition initial_message :: string where
  "initial_message = ''Hello! I'm your healthcare assistant. What's your name?''"

definition apology :: string where
  "apology = ''I'm sorry, I couldn't generate a response. Please try again.''"

text \<open>Lines 171 to 175: an empty conversation is opened with the greeting.\<close>

definition auto_start :: "session_state \<Rightarrow> session_state" where
  "auto_start s =
     (if messages s = []
      then s\<lparr>messages := messages s @ [\<lparr>role = ''assistant'', content = initial_message\<rparr>]\<rparr>
      else s)"

text \<open>Lines 187 to 190, over \<^verbatim>\<open>st.session_state.messages[:-1]\<close>.\<close>

definition to_turn :: "message \<Rightarrow> api_turn" where
  "to_turn msg =
     \<lparr>api_role = (if role msg = ''assistant'' then ''model'' else ''user''),
      parts = [content msg]\<rparr>"

definition gemini_history :: "message list \<Rightarrow> api_turn list" where
  "gemini_history msgs = map to_turn (butlast msgs)"

text \<open>Lines 198 to 203: the history is passed only when a chat session is stored.\<close>

definition call_generate_response ::
  "platform \<Rightarrow> provider \<Rightarrow> chat option \<Rightarrow> string \<Rightarrow> api_turn list \<Rightarrow> outcome \<times> event list"
where
  "call_generate_response platform prov session prompt history =
     (if session \<noteq> None then generate_response platform prov prompt (Some history)
      else generate_response platform prov prompt None)"

text \<open>Lines 210 to 214: the texts of the chunks are concatenated, chunks without text skipped.\<close>

fun consume :: "string \<Rightarrow> chunk list \<Rightarrow> string" where
  "consume full_response [] = full_response"
| "consume full_response (NoText # cs) = consume full_response cs"
| "consume full_response (Text t # cs) =
     (if t \<noteq> [] then consume (full_response @ t) cs else consume full_response cs)"

text \<open>Lines 208 to 223: the text that becomes the assistant message.\<close>

definition stream_response :: "response option \<Rightarrow> string" where
  "stream_response resp =
     (case resp of
        Some r \<Rightarrow>
          (case stream_error r of
             None \<Rightarrow> consume [] (chunks r)
           | Some e \<Rightarrow> ''Error while streaming response: '' @ e)
      | None \<Rightarrow> apology)"

datatype run_end = Completed | Stopped | Crashed exn

text \<open>
  Lines 179 to 226, for a submitted prompt. Unpacking \<^verbatim>\<open>None\<close> into two names raises
  \<^verbatim>\<open>TypeError\<close>; that exception, like one escaping \<^verbatim>\<open>generate_response\<close>, ends
  the run after the user message was appended.
\<close>

definition handle_prompt ::
  "platform \<Rightarrow> provider \<Rightarrow> string \<Rightarrow> session_state \<Rightarrow> run_end \<times> session_state \<times> event list"
where
  "handle_prompt platform prov prompt s =
     (let s1 = s\<lparr>messages := messages s @ [\<lparr>role = ''user'', content = prompt\<rparr>]\<rparr>;
          history = gemini_history (messages s1);
          (out, evs) = call_generate_response platform prov (chat_session s1) prompt history
      in case out of
           Raise e \<Rightarrow> (Crashed e, s1, evs)
         | Return NoneValue \<Rightarrow>
             (Crashed (TypeError ''cannot unpack non-iterable NoneType object''), s1, evs)
         | Return (Tuple resp chat) \<Rightarrow>
             (let s2 = (if chat_session s1 \<noteq> None then s1
                        else (case chat of
                                Some c \<Rightarrow> s1\<lparr>chat_session := Some c\<rparr>
                              | None \<Rightarrow> s1));
                  full_response = stream_response resp
              in (Completed,
                  s2\<lparr>messages := messages s2 @ [\<lparr>role = ''assistant'', content = full_response\<rparr>]\<rparr>,
                  evs)))"

text \<open>
  One run of \<^verbatim>\<open>main\<close>. \<^verbatim>\<open>st.stop()\<close> ends the run when the key setup fails; an
  empty prompt is falsy, like \<^verbatim>\<open>None\<close>.
\<close>

definition main :: "inputs \<Rightarrow> session_state \<Rightarrow> run_end \<times> session_state \<times> event list" where
  "main inp s =
     (case setup_google_api inp s of
        (ok, s1, evs) \<Rightarrow>
          if \<not> ok then (Stopped, s1, evs)
          else
            (let s2 = auto_start s1
             in case chat_input inp of
                  None \<Rightarrow> (Completed, s2, evs)
                | Some prompt \<Rightarrow>
                    if prompt = [] then (Completed, s2, evs)
                    else
                      (case handle_prompt (sleep_platform inp) (provider inp) prompt s2 of
                         (e, s3, evs') \<Rightarrow> (e, s3, evs @ evs'))))"

section \<open>Observations on a run\<close>

fun attempts :: "event list \<Rightarrow> request list" where
  "attempts [] = []"
| "attempts (Attempt r # evs) = r # attempts evs"
| "attempts (_ # evs) = attempts evs"

fun sleeps :: "event list \<Rightarrow> int list" where
  "sleeps [] = []"
| "sleeps (Sleep d # evs) = d # sleeps evs"
| "sleeps (_ # evs) = sleeps evs"

text \<open>
  The turns the provider receives at an attempt: \<^verbatim>\<open>send_message\<close> submits the history
  the chat was started with, followed by the message as a turn of role \<^verbatim>\<open>user\<close>.
\<close>

definition request_turns :: "request \<Rightarrow> api_turn list" where
  "request_turns q = req_history q @ [\<lparr>api_role = ''user'', parts = [req_message q]\<rparr>]"

text \<open>
  A provider that fails every attempt with one error text, and one that succeeds with a
  given response after a given number of such failures.
\<close>

definition always_fails :: "string \<Rightarrow> provider" where
  "always_fails e = (\<lambda>i. Fails e)"


text \<open>An attempt that fails with an error the retry test accepts.\<close>

definition overloaded_failure :: "attempt \<Rightarrow> bool" where
  "overloaded_failure a = (case a of Fails e \<Rightarrow> is_overloaded e | Succeeds r \<Rightarrow> False)"

text \<open>Sample data for the concrete runs below.\<close>

definition overload_error :: string where
  "overload_error = ''503 The model is overloaded. Please try again later.''"

definition hello_response :: response where
  "hello_response = \<lparr>chunks = [Text ''Hello''], stream_error = None\<rparr>"

definition bad_request_error :: string where
  "bad_request_error = ''400 Bad request''"

definition broken_response :: response where
  "broken_response = \<lparr>chunks = [Text ''Hello''], stream_error = Some ''connection reset''\<rparr>"

definition sleeps_through :: platform where
  "sleeps_through = (\<lambda>secs. None)"

definition always_succeeds :: "response \<Rightarrow> provider" where
  "always_succeeds r = (\<lambda>i. Succeeds r)"

definition sample_inputs :: "string \<Rightarrow> provider \<Rightarrow> inputs" where
  "sample_inputs prompt prov =
     \<lparr>env_google_api_key = Some ''key'', sidebar_text_input = [], configure_error = None,
      chat_input = Some prompt, provider = prov, sleep_platform = sleeps_through\<rparr>"

definition no_key_inputs :: "string \<Rightarrow> provider \<Rightarrow> inputs" where
  "no_key_inputs prompt prov =
     \<lparr>env_google_api_key = None, sidebar_text_input = [], configure_error = None,
      chat_input = Some prompt, provider = prov, sleep_platform = sleeps_through\<rparr>"

definition greeted_state :: session_state where
  "greeted_state =
     \<lparr>messages = [\<lparr>role = ''assistant'', content = initial_message\<rparr>],
      chat_session = None, google_api_key = None\<rparr>"

definition example_state :: session_state where
  "example_state =
     \<lparr>messages = [\<lparr>role = ''user'', content = ''hi''\<rparr>,
                  \<lparr>role = ''assistant'', content = ''hello''\<rparr>],
      chat_session = Some (ChatSession []), google_api_key = None\<rparr>"

section \<open>The retry loop\<close>

lemma attempts_append: "attempts (xs @ ys) = attempts xs @ attempts ys"
  by (induction xs rule: attempts.induct) auto

lemma sleeps_append: "sleeps (xs @ ys) = sleeps xs @ sleeps ys"
  by (induction xs rule: sleeps.induct) auto

lemma str_int_error_small:
  assumes "\<bar>i\<bar> < 10 ^ 10"
  shows "str_int_error i = None"
proof -
  have "(10::int) ^ 10 \<le> 10 ^ int_max_str_digits"
    by (rule power_increasing) (simp_all add: int_max_str_digits_def)
  then show ?thesis
    using assms by (simp add: str_int_error_def)
qed

lemma time_sleep_sure:
  "0 \<le> secs \<Longrightarrow> secs < sure_sleep_limit \<Longrightarrow> time_sleep platform secs = None"
  by (simp add: time_sleep_def sure_sleep_limit_def)

lemma retry_step_error_small:
  assumes "0 \<le> retry_delay" "retry_delay < sure_sleep_limit"
    and "\<bar>retries\<bar> < 10 ^ 10" "\<bar>max_retries\<bar> < 10 ^ 10"
  shows "retry_step_error platform retry_delay retries max_retries = None"
proof -
  have "\<bar>retry_delay\<bar> < 10 ^ 10"
    using assms(1,2) by (simp add: sure_sleep_limit_def)
  then show ?thesis
    using assms
    by (simp add: retry_step_error_def retry_warning_error_def str_int_error_small
          time_sleep_sure)
qed

lemma default_steps_accepted:
  assumes "j < 3"
  shows "retry_step_error platform (2 * 2 ^ j) (int j + 1) 3 = None"
proof -
  have "j = 0 \<or> j = 1 \<or> j = 2" using assms by arith
  then show ?thesis
    by (auto simp: retry_step_error_small sure_sleep_limit_def)
qed

lemma retry_step_error_NoneD:
  assumes "retry_step_error platform retry_delay retries max_retries = None"
  shows "retry_warning_error retry_delay retries max_retries = None"
    and "time_sleep platform retry_delay = None"
  using assms by (auto simp: retry_step_error_def split: option.splits)

lemma retry_loop_retry:
  assumes "prov 0 = Fails e" "is_overloaded e" "retries < max_retries"
    and "retry_step_error platform retry_delay (retries + 1) max_retries = None"
  shows "retry_loop platform prov prompt h max_retries retry_delay retries =
         prepend [Attempt (build_request prompt h),
                  StWarning (retry_warning retry_delay (retries + 1) max_retries),
                  Sleep retry_delay]
           (retry_loop platform (rest prov) prompt h max_retries (retry_delay * 2) (retries + 1))"
  using assms(1,2,3) retry_step_error_NoneD [OF assms(4)]
  by (subst retry_loop.simps) simp

lemma retry_loop_step_raises:
  assumes "prov 0 = Fails e" "is_overloaded e" "retries < max_retries"
    and "retry_step_error platform retry_delay (retries + 1) max_retries = Some x"
  shows "fst (retry_loop platform prov prompt h max_retries retry_delay retries) = Raise x"
    and "attempts (snd (retry_loop platform prov prompt h max_retries retry_delay retries)) =
           [build_request prompt h]"
    and "sleeps (snd (retry_loop platform prov prompt h max_retries retry_delay retries)) = []"
  using assms
  by (subst retry_loop.simps; simp add: retry_step_error_def split: option.splits)+

lemma retry_loop_sleep_raises:
  assumes "prov 0 = Fails e" "is_overloaded e" "retries < max_retries"
    and "retry_warning_error retry_delay (retries + 1) max_retries = None"
    and "time_sleep platform retry_delay = Some x"
  shows "retry_loop platform prov prompt h max_retries retry_delay retries =
         (Raise x, [Attempt (build_request prompt h),
                    StWarning (retry_warning retry_delay (retries + 1) max_retries)])"
  using assms by (subst retry_loop.simps) simp


lemma retry_loop_give_up:
  assumes "prov 0 = Fails e" "is_overloaded e" "retries = max_retries"
  shows "retry_loop platform prov prompt h max_retries retry_delay retries =
         (Return (Tuple None None), [Attempt (build_request prompt h), StError max_retries_message])"
  using assms by (subst retry_loop.simps) simp

lemma retry_loop_other_error:
  assumes "prov 0 = Fails e" "\<not> is_overloaded e" "retries \<le> max_retries"
  shows "retry_loop platform prov prompt h max_retries retry_delay retries =
         (Return (Tuple None None),
          [Attempt (build_request prompt h), StError (''Error generating response: '' @ e)])"
  using assms by (subst retry_loop.simps) simp

lemma retry_loop_success:
  assumes "prov 0 = Succeeds r" "retries \<le> max_retries"
  shows "retry_loop platform prov prompt h max_retries retry_delay retries =
         (Return (Tuple (Some r) (Some (start_chat h))), [Attempt (build_request prompt h)])"
  using assms by (subst retry_loop.simps) simp

lemma overloaded_failureE:
  assumes "overloaded_failure a"
  obtains e where "a = Fails e" "is_overloaded e"
  using assms by (cases a) (auto simp: overloaded_failure_def)

text \<open>
  A run of overloaded failures that stays within the budget: each one is followed by the
  warning, the sleep and the next turn of the loop, the delay doubled.
\<close>

lemma retry_loop_failures:
  assumes "retries + int k \<le> max_retries"
    and "\<forall>j<k. retry_step_error platform (retry_delay * 2 ^ j) (retries + int j + 1)
                  max_retries = None"
    and "\<forall>i<k. overloaded_failure (prov i)"
  shows "\<exists>evs. retry_loop platform prov prompt h max_retries retry_delay retries =
           prepend evs (retry_loop platform (\<lambda>i. prov (i + k)) prompt h max_retries
                          (retry_delay * 2 ^ k) (retries + int k))
         \<and> attempts evs = replicate k (build_request prompt h)
         \<and> sleeps evs = map (\<lambda>j. retry_delay * 2 ^ j) [0..<k]"
  using assms
proof (induction k arbitrary: prov retry_delay retries)
  case 0
  show ?case by (rule exI [of _ "[]"]) (simp add: prepend_def)
next
  case (Suc k)
  from Suc.prems(3) have "overloaded_failure (prov 0)" by simp
  then obtain e where e: "prov 0 = Fails e" "is_overloaded e"
    by (rule overloaded_failureE)
  have lt: "retries < max_retries" using Suc.prems(1) by simp
  have "retry_step_error platform (retry_delay * 2 ^ 0) (retries + int 0 + 1) max_retries = None"
    using Suc.prems(2) by blast
  then have sl0: "retry_step_error platform retry_delay (retries + 1) max_retries = None"
    by simp
  have slk: "\<forall>j<k. retry_step_error platform (retry_delay * 2 * 2 ^ j)
                      (retries + 1 + int j + 1) max_retries = None"
  proof (intro allI impI)
    fix j assume "j < k"
    then have "Suc j < Suc k" by simp
    then have "retry_step_error platform (retry_delay * 2 ^ Suc j) (retries + int (Suc j) + 1)
                 max_retries = None"
      using Suc.prems(2) by blast
    then show "retry_step_error platform (retry_delay * 2 * 2 ^ j)
                 (retries + 1 + int j + 1) max_retries = None"
      by (simp add: mult.assoc)
  qed
  let ?hd = "[Attempt (build_request prompt h),
              StWarning (retry_warning retry_delay (retries + 1) max_retries),
              Sleep retry_delay]"
  have step: "retry_loop platform prov prompt h max_retries retry_delay retries =
      prepend ?hd (retry_loop platform (rest prov) prompt h max_retries (retry_delay * 2) (retries + 1))"
    using e lt sl0 by (simp add: retry_loop_retry [of prov e])
  have le: "retries + 1 + int k \<le> max_retries" using Suc.prems(1) by simp
  have fl: "\<forall>i<k. overloaded_failure (rest prov i)"
    using Suc.prems(3) by (simp add: rest_def)
  have "\<exists>evs. retry_loop platform (rest prov) prompt h max_retries (retry_delay * 2) (retries + 1) =
           prepend evs (retry_loop platform (\<lambda>i. rest prov (i + k)) prompt h max_retries
                          (retry_delay * 2 * 2 ^ k) (retries + 1 + int k))
         \<and> attempts evs = replicate k (build_request prompt h)
         \<and> sleeps evs = map (\<lambda>j. retry_delay * 2 * 2 ^ j) [0..<k]"
    by (rule Suc.IH [OF le slk fl])
  then obtain evs where evs:
    "retry_loop platform (rest prov) prompt h max_retries (retry_delay * 2) (retries + 1) =
           prepend evs (retry_loop platform (\<lambda>i. rest prov (i + k)) prompt h max_retries
                          (retry_delay * 2 * 2 ^ k) (retries + 1 + int k))"
    "attempts evs = replicate k (build_request prompt h)"
    "sleeps evs = map (\<lambda>j. retry_delay * 2 * 2 ^ j) [0..<k]"
    by blast
  have shift: "(\<lambda>i. rest prov (i + k)) = (\<lambda>i. prov (i + Suc k))"
    by (simp add: rest_def)
  have sl: "retry_delay # map (\<lambda>j. retry_delay * 2 * 2 ^ j) [0..<k] =
            map (\<lambda>j. retry_delay * 2 ^ j) [0..<Suc k]"
    by (simp add: upt_rec [of 0 "Suc k"] map_Suc_upt [symmetric] del: upt_Suc)
  show ?case
    apply (rule exI [of _ "?hd @ evs"])
    using step evs shift sl
    apply (simp add: prepend_def attempts_append sleeps_append ac_simps del: upt_Suc)
    done
qed

lemma retry_loop_attempts_nonempty:
  "retries \<le> max_retries \<Longrightarrow>
   attempts (snd (retry_loop platform prov prompt h max_retries retry_delay retries)) \<noteq> []"
  by (subst retry_loop.simps) (auto split: attempt.splits option.splits simp: prepend_def)

lemma retry_loop_attempts_built:
  "set (attempts (snd (retry_loop platform prov prompt h max_retries retry_delay retries)))
     \<subseteq> {build_request prompt h}"
proof (induction platform prov prompt h max_retries retry_delay retries rule: retry_loop.induct)
  case (1 platform prov prompt h max_retries retry_delay retries)
  show ?case
    using "1.IH"
    by (subst retry_loop.simps) (auto split: attempt.splits option.splits simp: prepend_def)
qed

lemma retry_failures_from_start:
  assumes "int k \<le> max_retries"
    and "\<forall>j<k. retry_step_error platform (retry_delay * 2 ^ j) (int j + 1) max_retries = None"
    and "\<forall>i<k. overloaded_failure (prov i)"
  shows "\<exists>evs. retry_loop platform prov prompt h max_retries retry_delay 0 =
           prepend evs (retry_loop platform (\<lambda>i. prov (i + k)) prompt h max_retries
                          (retry_delay * 2 ^ k) (int k))
         \<and> attempts evs = replicate k (build_request prompt h)
         \<and> sleeps evs = map (\<lambda>j. retry_delay * 2 ^ j) [0..<k]"
proof -
  have le0: "0 + int k \<le> max_retries" using assms(1) by simp
  have st: "\<forall>j<k. retry_step_error platform (retry_delay * 2 ^ j) (0 + int j + 1)
                    max_retries = None"
    using assms(2) by simp
  have eq: "0 + int k = int k" by simp
  show ?thesis
    using retry_loop_failures [where retries = 0 and prompt = prompt and h = h,
        OF le0 st assms(3)]
    unfolding eq .
qed

lemma retry_exhausted:
  assumes "0 \<le> max_retries"
    and "\<forall>j<nat max_retries.
           retry_step_error platform (retry_delay * 2 ^ j) (int j + 1) max_retries = None"
    and "\<forall>i\<le>nat max_retries. overloaded_failure (prov i)"
  shows "fst (generate_response_with_retry platform prov prompt h max_retries retry_delay) =
           Return (Tuple None None)"
    and "attempts (snd (generate_response_with_retry platform prov prompt h max_retries retry_delay)) =
           replicate (nat max_retries + 1) (build_request prompt h)"
    and "sleeps (snd (generate_response_with_retry platform prov prompt h max_retries retry_delay)) =
           map (\<lambda>j. retry_delay * 2 ^ j) [0..<nat max_retries]"
proof -
  define n where "n = nat max_retries"
  have n: "int n = max_retries" using assms(1) by (simp add: n_def)
  have fl: "\<forall>i<n. overloaded_failure (prov i)" using assms(3) by (simp add: n_def)
  have le: "int n \<le> max_retries" using n by simp
  have sl: "\<forall>j<n. retry_step_error platform (retry_delay * 2 ^ j) (int j + 1)
                    max_retries = None"
    using assms(2) by (simp add: n_def)
  obtain evs where evs:
    "retry_loop platform prov prompt h max_retries retry_delay 0 =
       prepend evs (retry_loop platform (\<lambda>i. prov (i + n)) prompt h max_retries
                      (retry_delay * 2 ^ n) (int n))"
    "attempts evs = replicate n (build_request prompt h)"
    "sleeps evs = map (\<lambda>j. retry_delay * 2 ^ j) [0..<n]"
    using retry_failures_from_start [OF le sl fl] by blast
  have "overloaded_failure (prov n)" using assms(3) by (simp add: n_def)
  then obtain e where e: "prov n = Fails e" "is_overloaded e"
    by (rule overloaded_failureE)
  have hd: "(\<lambda>i. prov (i + n)) 0 = Fails e" using e(1) by simp
  have last: "retry_loop platform (\<lambda>i. prov (i + n)) prompt h max_retries (retry_delay * 2 ^ n) (int n) =
      (Return (Tuple None None), [Attempt (build_request prompt h), StError max_retries_message])"
    using hd e(2) n by (rule retry_loop_give_up)
  have whole: "generate_response_with_retry platform prov prompt h max_retries retry_delay =
      (Return (Tuple None None),
       evs @ [Attempt (build_request prompt h), StError max_retries_message])"
    unfolding generate_response_with_retry_def evs(1) last prepend_def by simp
  show "fst (generate_response_with_retry platform prov prompt h max_retries retry_delay) =
           Return (Tuple None None)"
    unfolding whole by simp
  show "attempts (snd (generate_response_with_retry platform prov prompt h max_retries retry_delay)) =
           replicate (nat max_retries + 1) (build_request prompt h)"
    unfolding whole n_def [symmetric]
    by (simp add: attempts_append evs(2) replicate_append_same)
  show "sleeps (snd (generate_response_with_retry platform prov prompt h max_retries retry_delay)) =
           map (\<lambda>j. retry_delay * 2 ^ j) [0..<nat max_retries]"
    unfolding whole n_def [symmetric]
    by (simp add: sleeps_append evs(3))
qed




lemma is_overloaded_overload_error: "is_overloaded overload_error"
  by (simp add: is_overloaded_def overload_error_def lower_def lower_char_def sublist_Cons_right)

lemma always_fails_overloaded: "overloaded_failure (always_fails overload_error i)"
  by (simp add: always_fails_def overloaded_failure_def is_overloaded_overload_error)


lemma not_overloaded_bad_request: "\<not> is_overloaded bad_request_error"
  by (simp add: is_overloaded_def bad_request_error_def sublist_Cons_right)

section \<open>The orchestrator's steps\<close>

lemma retry_loop_returns_tuple:
  "retries \<le> max_retries \<Longrightarrow>
   \<forall>j<nat (max_retries - retries).
      retry_step_error platform (retry_delay * 2 ^ j) (retries + int j + 1) max_retries = None \<Longrightarrow>
   \<exists>r c. fst (retry_loop platform prov prompt h max_retries retry_delay retries) =
           Return (Tuple r c)"
proof (induction platform prov prompt h max_retries retry_delay retries rule: retry_loop.induct)
  case (1 platform prov prompt h max_retries retry_delay retries)
  show ?case
  proof (cases "prov 0")
    case (Succeeds r)
    then show ?thesis using "1.prems" by (simp add: retry_loop_success [of prov r])
  next
    case (Fails e)
    show ?thesis
    proof (cases "is_overloaded e")
      case False
      then show ?thesis
        using Fails "1.prems" by (simp add: retry_loop_other_error [of prov e])
    next
      case True
      show ?thesis
      proof (cases "retries + 1 \<le> max_retries")
        case False
        then have "retries = max_retries" using "1.prems"(1) by simp
        then show ?thesis
          using Fails True by (simp add: retry_loop_give_up [of prov e])
      next
        case le: True
        have pos: "0 < nat (max_retries - retries)" using le by simp
        have "retry_step_error platform (retry_delay * 2 ^ 0) (retries + int 0 + 1) max_retries =
                None"
          using "1.prems"(2) pos by blast
        then have sl0: "retry_step_error platform retry_delay (retries + 1) max_retries = None"
          by simp
        have slk: "\<forall>j<nat (max_retries - (retries + 1)).
                     retry_step_error platform (retry_delay * 2 * 2 ^ j)
                       (retries + 1 + int j + 1) max_retries = None"
        proof (intro allI impI)
          fix j assume "j < nat (max_retries - (retries + 1))"
          then have "Suc j < nat (max_retries - retries)" by linarith
          then have "retry_step_error platform (retry_delay * 2 ^ Suc j)
                       (retries + int (Suc j) + 1) max_retries = None"
            using "1.prems"(2) by blast
          then show "retry_step_error platform (retry_delay * 2 * 2 ^ j)
                       (retries + 1 + int j + 1) max_retries = None"
            by (simp add: mult.assoc)
        qed
        note st = retry_step_error_NoneD [OF sl0]
        have "\<exists>r c. fst (retry_loop platform (rest prov) prompt h max_retries (retry_delay * 2)
                 (retries + 1)) = Return (Tuple r c)"
          by (rule "1.IH" [OF "1.prems"(1) Fails True le st le slk])
        moreover have "retry_loop platform prov prompt h max_retries retry_delay retries =
           prepend [Attempt (build_request prompt h),
                  StWarning (retry_warning retry_delay (retries + 1) max_retries),
                  Sleep retry_delay]
             (retry_loop platform (rest prov) prompt h max_retries (retry_delay * 2) (retries + 1))"
          using Fails True le sl0 by (simp add: retry_loop_retry [of prov e])
        ultimately show ?thesis by (simp add: prepend_def)
      qed
    qed
  qed
qed

lemma generate_response_returns_tuple:
  "\<exists>r c. fst (generate_response platform prov prompt h) = Return (Tuple r c)"
  unfolding generate_response_def generate_response_with_retry_def
  by (rule retry_loop_returns_tuple)
     (simp_all add: default_max_retries_def default_retry_delay_def default_steps_accepted)

lemma call_generate_response_returns_tuple:
  "\<exists>r c. fst (call_generate_response platform prov session prompt history) = Return (Tuple r c)"
  unfolding call_generate_response_def
  by (simp add: generate_response_returns_tuple)

lemma generate_response_attempts_built:
  "set (attempts (snd (generate_response platform prov prompt h))) \<subseteq> {build_request prompt h}"
  unfolding generate_response_def generate_response_with_retry_def
  by (rule retry_loop_attempts_built)

lemma generate_response_attempts_nonempty:
  "attempts (snd (generate_response platform prov prompt h)) \<noteq> []"
  unfolding generate_response_def generate_response_with_retry_def
  by (rule retry_loop_attempts_nonempty) (simp add: default_max_retries_def)

lemma generate_response_first_success:
  "prov 0 = Succeeds r \<Longrightarrow>
   generate_response platform prov prompt h =
     (Return (Tuple (Some r) (Some (start_chat h))), [Attempt (build_request prompt h)])"
  by (simp add: generate_response_def generate_response_with_retry_def default_max_retries_def
        retry_loop_success [of prov r])

lemma generate_response_first_other_error:
  "prov 0 = Fails e \<Longrightarrow> \<not> is_overloaded e \<Longrightarrow>
   generate_response platform prov prompt h =
     (Return (Tuple None None),
      [Attempt (build_request prompt h), StError (''Error generating response: '' @ e)])"
  by (simp add: generate_response_def generate_response_with_retry_def default_max_retries_def
        retry_loop_other_error [of prov e])

lemma setup_google_api_keeps:
  "messages (fst (snd (setup_google_api inp s))) = messages s"
  "chat_session (fst (snd (setup_google_api inp s))) = chat_session s"
  by (auto simp: setup_google_api_def Let_def split: option.splits)

lemma setup_google_api_ok_events:
  "fst (setup_google_api inp s) \<Longrightarrow> snd (snd (setup_google_api inp s)) = []"
  by (auto simp: setup_google_api_def Let_def split: option.splits if_splits)

lemma setup_google_api_no_attempts:
  "attempts (snd (snd (setup_google_api inp s))) = []"
  by (auto simp: setup_google_api_def Let_def split: option.splits if_splits)

lemma auto_start_messages:
  "messages s1 = messages s \<Longrightarrow> messages (auto_start s1) = messages (auto_start s)"
  by (simp add: auto_start_def)

lemma auto_start_chat_session: "chat_session (auto_start s) = chat_session s"
  by (simp add: auto_start_def)

lemma auto_start_nonempty: "messages (auto_start s) \<noteq> []"
  by (simp add: auto_start_def)

lemma auto_start_prefix: "prefix (messages s) (messages (auto_start s))"
  by (simp add: auto_start_def)

lemma gemini_history_snoc: "gemini_history (msgs @ [m]) = map to_turn msgs"
  by (simp add: gemini_history_def)

lemma handle_prompt_result:
  assumes "call_generate_response platform prov (chat_session s) prompt (map to_turn (messages s)) =
             (Return (Tuple resp c), evs)"
  shows "fst (handle_prompt platform prov prompt s) = Completed"
    and "messages (fst (snd (handle_prompt platform prov prompt s))) =
           messages s @ [\<lparr>role = ''user'', content = prompt\<rparr>,
                         \<lparr>role = ''assistant'', content = stream_response resp\<rparr>]"
    and "snd (snd (handle_prompt platform prov prompt s)) = evs"
  using assms
  by (simp_all add: handle_prompt_def Let_def gemini_history_snoc split: option.splits)

lemma main_prompt:
  assumes "fst (setup_google_api inp s)" "chat_input inp = Some p" "p \<noteq> []"
    and "call_generate_response (sleep_platform inp) (provider inp) (chat_session s) p
           (map to_turn (messages (auto_start s))) = (Return (Tuple resp c), evs)"
  shows "fst (main inp s) = Completed"
    and "messages (fst (snd (main inp s))) =
           messages (auto_start s) @ [\<lparr>role = ''user'', content = p\<rparr>,
                         \<lparr>role = ''assistant'', content = stream_response resp\<rparr>]"
    and "snd (snd (main inp s)) = evs"
proof -
  obtain s1 where su: "setup_google_api inp s = (True, s1, [])"
    using assms(1) setup_google_api_ok_events [OF assms(1)]
    by (cases "setup_google_api inp s") auto
  have m1: "messages s1 = messages s" and c1: "chat_session s1 = chat_session s"
    using setup_google_api_keeps [of inp s] by (simp_all add: su)
  have call: "call_generate_response (sleep_platform inp) (provider inp) (chat_session (auto_start s1)) p
           (map to_turn (messages (auto_start s1))) = (Return (Tuple resp c), evs)"
    using assms(4) by (simp add: auto_start_chat_session c1 auto_start_messages [OF m1])
  have mn: "main inp s = handle_prompt (sleep_platform inp) (provider inp) p (auto_start s1)"
    by (simp add: main_def su assms(2,3) Let_def split: prod.splits)
  show "fst (main inp s) = Completed"
    unfolding mn by (rule handle_prompt_result(1) [OF call])
  show "messages (fst (snd (main inp s))) =
           messages (auto_start s) @ [\<lparr>role = ''user'', content = p\<rparr>,
                         \<lparr>role = ''assistant'', content = stream_response resp\<rparr>]"
    unfolding mn handle_prompt_result(2) [OF call] by (simp add: auto_start_messages [OF m1])
  show "snd (snd (main inp s)) = evs"
    unfolding mn by (rule handle_prompt_result(3) [OF call])
qed

lemma main_messages_prefix: "prefix (messages s) (messages (fst (snd (main inp s))))"
proof (cases "fst (setup_google_api inp s)")
  case False
  then have "main inp s = (Stopped, fst (snd (setup_google_api inp s)),
                           snd (snd (setup_google_api inp s)))"
    by (cases "setup_google_api inp s") (simp add: main_def)
  then show ?thesis by (simp add: setup_google_api_keeps)
next
  case ok: True
  show ?thesis
  proof (cases "\<exists>p. chat_input inp = Some p \<and> p \<noteq> []")
    case False
    then have "messages (fst (snd (main inp s))) =
        messages (auto_start (fst (snd (setup_google_api inp s))))"
      using ok by (cases "setup_google_api inp s") (auto simp: main_def Let_def split: option.splits)
    then show ?thesis
      by (simp add: auto_start_messages [OF setup_google_api_keeps(1)] auto_start_prefix)
  next
    case True
    then obtain p where p: "chat_input inp = Some p" "p \<noteq> []" by blast
    let ?call = "call_generate_response (sleep_platform inp) (provider inp) (chat_session s) p
                   (map to_turn (messages (auto_start s)))"
    obtain resp ch where "fst ?call = Return (Tuple resp ch)"
      using call_generate_response_returns_tuple by blast
    then have call: "?call = (Return (Tuple resp ch), snd ?call)"
      by (metis prod.collapse)
    have "prefix (messages (auto_start s)) (messages (fst (snd (main inp s))))"
      unfolding main_prompt(2) [OF ok p call] by simp
    with auto_start_prefix [of s] show ?thesis
      by (rule prefix_order.trans)
  qed
qed

lemma sample_setup_ok: "fst (setup_google_api (sample_inputs prompt prov) s)"
  by (simp add: setup_google_api_def sample_inputs_def falsy_def)

section \<open>The claims\<close>

subsection \<open>Claim C1\<close>




subsection \<open>Claim C2\<close>

text \<open>
  C2, amended. Let the attempt numbered \<open>k\<close> (counting from 0, reached after \<open>k\<close>
  overload failures within the cap, each followed by a retry step that went through)
  fail with the error text \<open>e\<close>. A further attempt follows exactly when \<open>e\<close> contains
  \<^verbatim>\<open>503\<close> and, in lower case, \<^verbatim>\<open>overloaded\<close>, fewer than \<open>max_retries\<close> retries were
  made so far, and the retry step goes through: the warning is rendered and
  \<^verbatim>\<open>time.sleep\<close> accepts the current delay. When \<open>e\<close> does not match, the run ends at
  this attempt: it returns \<^verbatim>\<open>(None, None)\<close>, no retry follows (one attempt and no sleep
  when \<open>k = 0\<close>), and the last effect is the error display carrying \<open>e\<close>. When \<open>e\<close>
  matches at the cap, the run ends at this attempt with the display of the maximum-retries
  error and returns \<^verbatim>\<open>(None, None)\<close>. When \<open>e\<close> matches below the cap and the retry
  step raises, that exception escapes the function and no retry follows.
\<close>

theorem retry_decision:
  assumes "int k \<le> max_retries"
    and "\<forall>j<k. retry_step_error platform (retry_delay * 2 ^ j) (int j + 1) max_retries = None"
    and "\<forall>i<k. overloaded_failure (prov i)" "prov k = Fails e"
  shows "(k + 1 < length (attempts (snd (generate_response_with_retry platform prov prompt h
                     max_retries retry_delay)))
          \<longleftrightarrow> is_overloaded e \<and> int k < max_retries
              \<and> retry_step_error platform (retry_delay * 2 ^ k) (int k + 1) max_retries = None)
       \<and> (\<not> is_overloaded e \<longrightarrow>
            fst (generate_response_with_retry platform prov prompt h max_retries retry_delay) =
              Return (Tuple None None)
          \<and> length (attempts (snd (generate_response_with_retry platform prov prompt h
                      max_retries retry_delay))) = k + 1
          \<and> length (sleeps (snd (generate_response_with_retry platform prov prompt h
                      max_retries retry_delay))) = k
          \<and> last (snd (generate_response_with_retry platform prov prompt h
                      max_retries retry_delay)) =
              StError (''Error generating response: '' @ e))
       \<and> (is_overloaded e \<and> int k = max_retries \<longrightarrow>
            fst (generate_response_with_retry platform prov prompt h max_retries retry_delay) =
              Return (Tuple None None)
          \<and> length (attempts (snd (generate_response_with_retry platform prov prompt h
                      max_retries retry_delay))) = k + 1
          \<and> length (sleeps (snd (generate_response_with_retry platform prov prompt h
                      max_retries retry_delay))) = k
          \<and> last (snd (generate_response_with_retry platform prov prompt h
                      max_retries retry_delay)) = StError max_retries_message)
       \<and> (is_overloaded e \<and> int k < max_retries \<longrightarrow>
            (\<forall>x. retry_step_error platform (retry_delay * 2 ^ k) (int k + 1) max_retries =
                   Some x \<longrightarrow>
               fst (generate_response_with_retry platform prov prompt h max_retries retry_delay) =
                 Raise x
             \<and> length (attempts (snd (generate_response_with_retry platform prov prompt h
                         max_retries retry_delay))) = k + 1
             \<and> length (sleeps (snd (generate_response_with_retry platform prov prompt h
                         max_retries retry_delay))) = k))"
proof -
  let ?G = "generate_response_with_retry platform prov prompt h max_retries retry_delay"
  let ?L = "retry_loop platform (\<lambda>i. prov (i + k)) prompt h max_retries
              (retry_delay * 2 ^ k) (int k)"
  obtain evs where evs:
    "retry_loop platform prov prompt h max_retries retry_delay 0 = prepend evs ?L"
    "attempts evs = replicate k (build_request prompt h)"
    "sleeps evs = map (\<lambda>j. retry_delay * 2 ^ j) [0..<k]"
    using retry_failures_from_start [OF assms(1,2,3)] by blast
  have G: "?G = (fst ?L, evs @ snd ?L)"
    unfolding generate_response_with_retry_def evs(1) prepend_def by simp
  have fstG: "fst ?G = fst ?L" unfolding G by simp
  have attG: "length (attempts (snd ?G)) = k + length (attempts (snd ?L))"
    unfolding G by (simp add: attempts_append evs(2))
  have slG: "length (sleeps (snd ?G)) = k + length (sleeps (snd ?L))"
    unfolding G by (simp add: sleeps_append evs(3))
  have hd: "(\<lambda>i. prov (i + k)) 0 = Fails e" using assms(4) by simp
  show ?thesis
  proof (cases "is_overloaded e")
    case False
    have L: "?L = (Return (Tuple None None),
                   [Attempt (build_request prompt h), StError (''Error generating response: '' @ e)])"
      using hd False assms(1) by (rule retry_loop_other_error)
    show ?thesis
      unfolding G L using False
      by (simp add: attempts_append sleeps_append evs(2,3))
  next
    case True
    show ?thesis
    proof (cases "int k < max_retries")
      case False
      then have eq: "int k = max_retries" using assms(1) by simp
      have L: "?L = (Return (Tuple None None),
                     [Attempt (build_request prompt h), StError max_retries_message])"
        using hd True eq by (rule retry_loop_give_up)
      show ?thesis
        unfolding G L using True False
        by (simp add: attempts_append sleeps_append evs(2,3))
    next
      case lt: True
      then have ne: "int k \<noteq> max_retries" by simp
      show ?thesis
      proof (cases "retry_step_error platform (retry_delay * 2 ^ k) (int k + 1) max_retries")
        case (Some x)
        note r = retry_loop_step_raises [where prov = "\<lambda>i. prov (i + k)" and prompt = prompt
            and h = h, OF hd True lt Some]
        show ?thesis
          unfolding fstG attG slG r using True lt ne Some by simp
      next
        case None
        let ?L' = "retry_loop platform (rest (\<lambda>i. prov (i + k))) prompt h max_retries
              (retry_delay * 2 ^ k * 2) (int k + 1)"
        have L: "?L = prepend [Attempt (build_request prompt h),
                    StWarning (retry_warning (retry_delay * 2 ^ k) (int k + 1) max_retries),
                    Sleep (retry_delay * 2 ^ k)] ?L'"
          using hd True lt None by (rule retry_loop_retry)
        have "int k + 1 \<le> max_retries" using lt by simp
        then have "attempts (snd ?L') \<noteq> []"
          by (rule retry_loop_attempts_nonempty)
        then have "1 < length (attempts (snd ?L))"
          unfolding L prepend_def by (simp add: attempts_append)
        then have "k + 1 < length (attempts (snd ?G))"
          unfolding attG by simp
        then show ?thesis
          using True lt ne None by simp
      qed
    qed
  qed
qed

theorem retry_decision_witness:
  "length (attempts (snd (generate_response_with_retry sleeps_through
      (always_fails bad_request_error) ''hi'' None 3 2))) = 1
   \<and> last (snd (generate_response_with_retry sleeps_through (always_fails bad_request_error)
        ''hi'' None 3 2)) =
       StError (''Error generating response: '' @ bad_request_error)
   \<and> 1 < length (attempts (snd (generate_response_with_retry sleeps_through
        (always_fails overload_error) ''hi'' None 3 2)))
   \<and> fst (generate_response_with_retry sleeps_through (always_fails overload_error)
        ''hi'' None 0 2) = Return (Tuple None None)
   \<and> fst (generate_response_with_retry sleeps_through (always_fails overload_error)
        ''hi'' None 3 (- 1)) = Raise (ValueError ''sleep length must be non-negative'')"
proof -
  have ok: "retry_step_error sleeps_through 2 1 3 = None"
    by (simp add: retry_step_error_small sure_sleep_limit_def)
  have neg: "retry_step_error sleeps_through (- 1) 1 3 =
      Some (ValueError ''sleep length must be non-negative'')"
    by (simp add: retry_step_error_def retry_warning_error_def str_int_error_small
          time_sleep_def)
  show ?thesis
    using
      retry_decision [where retry_delay = 2 and max_retries = 3 and k = 0 and prompt = "''hi''"
        and h = None and platform = sleeps_through and prov = "always_fails bad_request_error"
        and e = bad_request_error]
      retry_decision [where retry_delay = 2 and max_retries = 3 and k = 0 and prompt = "''hi''"
        and h = None and platform = sleeps_through and prov = "always_fails overload_error"
        and e = overload_error]
      retry_decision [where retry_delay = 2 and max_retries = 0 and k = 0 and prompt = "''hi''"
        and h = None and platform = sleeps_through and prov = "always_fails overload_error"
        and e = overload_error]
      retry_decision [where retry_delay = "- 1" and max_retries = 3 and k = 0
        and prompt = "''hi''" and h = None and platform = sleeps_through
        and prov = "always_fails overload_error" and e = overload_error]
    by (simp add: always_fails_def not_overloaded_bad_request is_overloaded_overload_error ok neg)
qed

text \<open>
  The claim as stated fails at the cap: with \<open>max_retries = 0\<close> the only attempt fails
  with a matching error and no retry is performed. It also fails where the retry step
  raises: with one retry allowed and the delay \<open>-1\<close> the first attempt fails with a
  matching error, \<^verbatim>\<open>time.sleep\<close> raises, and no retry is performed.
\<close>

theorem retry_at_cap_counterexample:
  "always_fails overload_error 0 = Fails overload_error
   \<and> is_overloaded overload_error
   \<and> generate_response_with_retry sleeps_through (always_fails overload_error) ''hi'' None 0 2 =
       (Return (Tuple None None),
        [Attempt (build_request ''hi'' None), StError max_retries_message])
   \<and> generate_response_with_retry sleeps_through (always_fails overload_error) ''hi'' None 1 (- 1) =
       (Raise (ValueError ''sleep length must be non-negative''),
        [Attempt (build_request ''hi'' None), StWarning (retry_warning (- 1) 1 1)])"
proof -
  have w: "retry_warning_error (- 1) (0 + 1) 1 = None"
    by (simp add: retry_warning_error_def str_int_error_small)
  have neg: "time_sleep sleeps_through (- 1) =
      Some (ValueError ''sleep length must be non-negative'')"
    by (simp add: time_sleep_def)
  have hd: "always_fails overload_error 0 = Fails overload_error"
    by (simp add: always_fails_def)
  have "retry_loop sleeps_through (always_fails overload_error) ''hi'' None 1 (- 1) 0 =
       (Raise (ValueError ''sleep length must be non-negative''),
        [Attempt (build_request ''hi'' None), StWarning (retry_warning (- 1) (0 + 1) 1)])"
    using hd is_overloaded_overload_error _ w neg by (rule retry_loop_sleep_raises) simp
  then show ?thesis
    by (simp add: generate_response_with_retry_def always_fails_def is_overloaded_overload_error
          retry_loop_give_up [where e = overload_error])
qed

subsection \<open>Claim C3\<close>

text \<open>
  C3. With \<open>max_retries = 3\<close> and \<open>retry_delay = 2\<close>, when every attempt fails with an
  overload error, the delays slept between the attempts are exactly 2, 4 and 8.
\<close>

theorem backoff_delays:
  assumes "\<forall>i\<le>3. overloaded_failure (prov i)"
  shows "sleeps (snd (generate_response_with_retry platform prov prompt h 3 2)) = [2, 4, 8]"
proof -
  have a: "\<forall>i\<le>nat 3. overloaded_failure (prov i)" using assms by simp
  have s: "\<forall>j<nat 3. retry_step_error platform (2 * 2 ^ j) (int j + 1) 3 = None"
    by (simp add: default_steps_accepted)
  have "sleeps (snd (generate_response_with_retry platform prov prompt h 3 2)) =
          map (\<lambda>j. 2 * 2 ^ j) [0..<nat 3]"
    by (rule retry_exhausted(3) [OF _ s a]) simp
  also have "\<dots> = [2, 4, 8]"
    by (simp add: upt_rec numeral_nat)
  finally show ?thesis .
qed

theorem backoff_delays_witness:
  "sleeps (snd (generate_response_with_retry sleeps_through (always_fails overload_error) ''hi'' None 3 2)) =
     [2, 4, 8]"
  using backoff_delays [where prov = "always_fails overload_error" and prompt = "''hi''"
      and h = None and platform = sleeps_through]
  by (simp add: always_fails_overloaded)


subsection \<open>Claim C4\<close>

text \<open>
  C4, amended. When the stream of the response raises with text \<open>e\<close> while it is
  consumed, the assistant message recorded for the turn is exactly
  \<^verbatim>\<open>Error while streaming response: \<close> followed by \<open>e\<close>, and the run completes with the
  user message and this assistant message appended.
\<close>

theorem stream_failure_recorded:
  assumes "fst (setup_google_api inp s)" "chat_input inp = Some p" "p \<noteq> []"
    and "fst (call_generate_response (sleep_platform inp) (provider inp) (chat_session s) p
           (map to_turn (messages (auto_start s)))) = Return (Tuple (Some r) c)"
    and "stream_error r = Some e"
  shows "fst (main inp s) = Completed
       \<and> messages (fst (snd (main inp s))) =
           messages (auto_start s) @
             [\<lparr>role = ''user'', content = p\<rparr>,
              \<lparr>role = ''assistant'', content = ''Error while streaming response: '' @ e\<rparr>]"
proof -
  obtain evs where call: "call_generate_response (sleep_platform inp) (provider inp) (chat_session s) p
           (map to_turn (messages (auto_start s))) = (Return (Tuple (Some r) c), evs)"
    using assms(4) by (metis prod.collapse)
  have "stream_response (Some r) = ''Error while streaming response: '' @ e"
    using assms(5) by (simp add: stream_response_def)
  then show ?thesis
    using main_prompt(1,2) [OF assms(1,2,3) call] by simp
qed

theorem stream_failure_recorded_witness:
  "fst (main (sample_inputs ''hi'' (always_succeeds broken_response)) greeted_state) = Completed
   \<and> messages (fst (snd (main (sample_inputs ''hi'' (always_succeeds broken_response))
        greeted_state))) =
       [\<lparr>role = ''assistant'', content = initial_message\<rparr>,
        \<lparr>role = ''user'', content = ''hi''\<rparr>,
        \<lparr>role = ''assistant'', content = ''Error while streaming response: connection reset''\<rparr>]"
proof -
  have call: "fst (call_generate_response (sleep_platform (sample_inputs ''hi'' (always_succeeds broken_response)))
      (provider (sample_inputs ''hi'' (always_succeeds broken_response)))
      (chat_session greeted_state) ''hi'' (map to_turn (messages (auto_start greeted_state)))) =
      Return (Tuple (Some broken_response) (Some (start_chat None)))"
    by (simp add: call_generate_response_def sample_inputs_def greeted_state_def
          generate_response_first_success [of _ broken_response] always_succeeds_def)
  have se: "stream_error broken_response = Some ''connection reset''"
    by (simp add: broken_response_def)
  have ci: "chat_input (sample_inputs ''hi'' (always_succeeds broken_response)) = Some ''hi''"
    by (simp add: sample_inputs_def)
  show ?thesis
    using stream_failure_recorded [OF sample_setup_ok ci _ call se]
    by (simp add: auto_start_def greeted_state_def)
qed

text \<open>
  The claim as stated fails: the fragments received before the failure are not part of
  the recorded message. Here the stream yields \<^verbatim>\<open>Hello\<close> and then fails.
\<close>

theorem partial_text_discarded_counterexample:
  "consume [] (chunks broken_response) = ''Hello''
   \<and> stream_error broken_response = Some ''connection reset''
   \<and> content (last (messages (fst (snd (main (sample_inputs ''hi''
        (always_succeeds broken_response)) greeted_state))))) =
       ''Error while streaming response: connection reset''
   \<and> \<not> prefix ''Hello'' (content (last (messages (fst (snd (main (sample_inputs ''hi''
        (always_succeeds broken_response)) greeted_state))))))"
proof -
  have call: "call_generate_response (sleep_platform (sample_inputs ''hi'' (always_succeeds broken_response)))
      (provider (sample_inputs ''hi'' (always_succeeds broken_response)))
      (chat_session greeted_state) ''hi'' (map to_turn (messages (auto_start greeted_state))) =
      (Return (Tuple (Some broken_response) (Some (start_chat None))),
       [Attempt (build_request ''hi'' None)])"
    by (simp add: call_generate_response_def sample_inputs_def greeted_state_def
          generate_response_first_success [of _ broken_response] always_succeeds_def)
  have ci: "chat_input (sample_inputs ''hi'' (always_succeeds broken_response)) = Some ''hi''"
    by (simp add: sample_inputs_def)
  have "messages (fst (snd (main (sample_inputs ''hi'' (always_succeeds broken_response))
          greeted_state))) =
        messages (auto_start greeted_state) @
          [\<lparr>role = ''user'', content = ''hi''\<rparr>,
           \<lparr>role = ''assistant'', content = stream_response (Some broken_response)\<rparr>]"
    by (rule main_prompt(2) [OF sample_setup_ok ci _ call]) simp
  then show ?thesis
    by (simp add: stream_response_def broken_response_def)
qed


subsection \<open>Claim C5\<close>

text \<open>
  C5. When a chat session is stored and a prompt is submitted, every attempt of the run
  is made with the history that is the conversation before the prompt, message by message
  in order, the role \<^verbatim>\<open>assistant\<close> turned into \<^verbatim>\<open>model\<close> and any other into
  \<^verbatim>\<open>user\<close>, and with the prompt as the message; the turns submitted are those of the
  history followed by one \<^verbatim>\<open>user\<close> turn. For the conversation user "hi", assistant
  "hello" and the prompt "I have a fever" they are user, model, user.
\<close>

theorem history_passed:
  assumes "fst (setup_google_api inp s)" "chat_session s = Some c"
    and "chat_input inp = Some p" "p \<noteq> []"
  shows "attempts (snd (snd (main inp s))) \<noteq> []
       \<and> (\<forall>q\<in>set (attempts (snd (snd (main inp s)))).
             req_history q = map to_turn (messages (auto_start s))
           \<and> req_message q = p
           \<and> map api_role (request_turns q) =
               map (\<lambda>m. if role m = ''assistant'' then ''model'' else ''user'')
                 (messages (auto_start s)) @ [''user''])"
proof -
  let ?h = "map to_turn (messages (auto_start s))"
  let ?call = "call_generate_response (sleep_platform inp) (provider inp) (chat_session s) p ?h"
  obtain resp ch where "fst ?call = Return (Tuple resp ch)"
    using call_generate_response_returns_tuple by blast
  then have call: "?call = (Return (Tuple resp ch), snd ?call)"
    by (metis prod.collapse)
  have tr: "snd (snd (main inp s)) = snd ?call"
    by (rule main_prompt(3) [OF assms(1,3,4) call])
  have gen: "?call = generate_response (sleep_platform inp) (provider inp) p (Some ?h)"
    using assms(2) by (simp add: call_generate_response_def)
  have "?h \<noteq> []" by (simp add: auto_start_nonempty)
  then have req: "build_request p (Some ?h) = \<lparr>req_history = ?h, req_message = p\<rparr>"
    by (cases ?h) (simp_all add: build_request_def)
  have roles: "map api_role ?h =
      map (\<lambda>m. if role m = ''assistant'' then ''model'' else ''user'') (messages (auto_start s))"
    by (simp add: to_turn_def)
  have sub: "set (attempts (snd (snd (main inp s)))) \<subseteq> {\<lparr>req_history = ?h, req_message = p\<rparr>}"
    unfolding tr gen req [symmetric] by (rule generate_response_attempts_built)
  have ne: "attempts (snd (snd (main inp s))) \<noteq> []"
    unfolding tr gen by (rule generate_response_attempts_nonempty)
  have "\<forall>q\<in>set (attempts (snd (snd (main inp s)))).
             req_history q = ?h \<and> req_message q = p
           \<and> map api_role (request_turns q) =
               map (\<lambda>m. if role m = ''assistant'' then ''model'' else ''user'')
                 (messages (auto_start s)) @ [''user'']"
  proof
    fix q assume "q \<in> set (attempts (snd (snd (main inp s))))"
    then have q: "q = \<lparr>req_history = ?h, req_message = p\<rparr>" using sub by blast
    show "req_history q = ?h \<and> req_message q = p
           \<and> map api_role (request_turns q) =
               map (\<lambda>m. if role m = ''assistant'' then ''model'' else ''user'')
                 (messages (auto_start s)) @ [''user'']"
      unfolding q request_turns_def using roles by simp
  qed
  with ne show ?thesis by blast
qed

theorem history_passed_witness:
  "attempts (snd (snd (main (sample_inputs ''I have a fever'' (always_succeeds hello_response))
      example_state))) \<noteq> []
   \<and> request_turns (hd (attempts (snd (snd (main (sample_inputs ''I have a fever''
        (always_succeeds hello_response)) example_state))))) =
       [\<lparr>api_role = ''user'', parts = [''hi'']\<rparr>,
        \<lparr>api_role = ''model'', parts = [''hello'']\<rparr>,
        \<lparr>api_role = ''user'', parts = [''I have a fever'']\<rparr>]
   \<and> map api_role (request_turns (hd (attempts (snd (snd (main (sample_inputs ''I have a fever''
        (always_succeeds hello_response)) example_state)))))) =
       [''user'', ''model'', ''user'']"
proof -
  let ?as = "attempts (snd (snd (main (sample_inputs ''I have a fever''
      (always_succeeds hello_response)) example_state)))"
  have cs: "chat_session example_state = Some (ChatSession [])"
    by (simp add: example_state_def)
  have ci: "chat_input (sample_inputs ''I have a fever'' (always_succeeds hello_response)) =
      Some ''I have a fever''"
    by (simp add: sample_inputs_def)
  note t = history_passed [OF sample_setup_ok cs ci]
  from t have ne: "?as \<noteq> []" by simp
  then have "hd ?as \<in> set ?as" by simp
  with t have "req_history (hd ?as) = map to_turn (messages (auto_start example_state))
      \<and> req_message (hd ?as) = ''I have a fever''"
    by simp
  then have "request_turns (hd ?as) =
       [\<lparr>api_role = ''user'', parts = [''hi'']\<rparr>,
        \<lparr>api_role = ''model'', parts = [''hello'']\<rparr>,
        \<lparr>api_role = ''user'', parts = [''I have a fever'']\<rparr>]"
    by (simp add: request_turns_def auto_start_def example_state_def to_turn_def)
  with ne show ?thesis by simp
qed


subsection \<open>Claim C6\<close>

text \<open>
  C6. When \<^const>\<open>generate_response_with_retry\<close> is called without history
  (\<^verbatim>\<open>None\<close> or the empty list), every attempt is made with an empty history and with
  the system instruction, the separator and the prompt as one message text; with a
  non-negative cap at least one attempt is made.
\<close>

theorem first_turn_prefix:
  assumes "h = None \<or> h = Some []"
  shows "(\<forall>q\<in>set (attempts (snd (generate_response_with_retry platform prov prompt h
                     max_retries retry_delay))).
            req_history q = []
          \<and> req_message q = system_instruction @ ''\<newline>\<newline>User: '' @ prompt)
       \<and> (0 \<le> max_retries \<longrightarrow>
            attempts (snd (generate_response_with_retry platform prov prompt h
                     max_retries retry_delay)) \<noteq> [])"
proof -
  have req: "build_request prompt h =
      \<lparr>req_history = [], req_message = system_instruction @ ''\<newline>\<newline>User: '' @ prompt\<rparr>"
    using assms by (auto simp: build_request_def prefixed_prompt_def)
  have "set (attempts (snd (generate_response_with_retry platform prov prompt h max_retries retry_delay)))
          \<subseteq> {build_request prompt h}"
    unfolding generate_response_with_retry_def by (rule retry_loop_attempts_built)
  then have all: "\<forall>q\<in>set (attempts (snd (generate_response_with_retry platform prov prompt h
                     max_retries retry_delay))).
            req_history q = []
          \<and> req_message q = system_instruction @ ''\<newline>\<newline>User: '' @ prompt"
    unfolding req by auto
  have "0 \<le> max_retries \<longrightarrow>
            attempts (snd (generate_response_with_retry platform prov prompt h
                     max_retries retry_delay)) \<noteq> []"
    unfolding generate_response_with_retry_def
    by (simp add: retry_loop_attempts_nonempty)
  with all show ?thesis by blast
qed

theorem first_turn_prefix_witness:
  "attempts (snd (generate_response_with_retry sleeps_through (always_fails bad_request_error)
      ''I have a fever'' None 3 2)) \<noteq> []
   \<and> req_history (hd (attempts (snd (generate_response_with_retry sleeps_through
        (always_fails bad_request_error) ''I have a fever'' None 3 2)))) = []
   \<and> req_message (hd (attempts (snd (generate_response_with_retry sleeps_through
        (always_fails bad_request_error) ''I have a fever'' None 3 2)))) =
       system_instruction @ ''\<newline>\<newline>User: I have a fever''"
proof -
  let ?as = "attempts (snd (generate_response_with_retry sleeps_through (always_fails bad_request_error)
      ''I have a fever'' None 3 2))"
  note t = first_turn_prefix [where h = None and prov = "always_fails bad_request_error"
      and prompt = "''I have a fever''" and max_retries = 3 and retry_delay = 2]
  from t have ne: "?as \<noteq> []" by simp
  then have "hd ?as \<in> set ?as" by simp
  with t have "req_history (hd ?as) = [] \<and>
      req_message (hd ?as) = system_instruction @ ''\<newline>\<newline>User: '' @ ''I have a fever''"
    by blast
  with ne show ?thesis by simp
qed


subsection \<open>Claim C7\<close>

text \<open>
  C7. When the environment variable is unset or empty, no key is cached in the session
  and the sidebar field is empty, a run of \<^const>\<open>main\<close> stops after the sidebar warning,
  whatever the chat input: the state is unchanged and no attempt is made.
\<close>

theorem no_key_no_request:
  assumes "falsy (env_google_api_key inp)" "falsy (google_api_key s)"
    and "sidebar_text_input inp = []"
  shows "main inp s =
           (Stopped, s, [SidebarWarning ''Please enter your Google AI API key to continue''])
       \<and> attempts (snd (snd (main inp s))) = []"
proof -
  have "setup_google_api inp s =
          (False, s, [SidebarWarning ''Please enter your Google AI API key to continue''])"
    using assms by (auto simp: setup_google_api_def falsy_def)
  then show ?thesis by (simp add: main_def)
qed

theorem no_key_no_request_witness:
  "main (no_key_inputs ''I have a fever'' (always_succeeds hello_response)) greeted_state =
     (Stopped, greeted_state,
      [SidebarWarning ''Please enter your Google AI API key to continue''])
   \<and> attempts (snd (snd (main (no_key_inputs ''I have a fever'' (always_succeeds hello_response))
        greeted_state))) = []"
  using no_key_no_request [of "no_key_inputs ''I have a fever'' (always_succeeds hello_response)"
      greeted_state]
  by (simp add: no_key_inputs_def greeted_state_def falsy_def)


subsection \<open>Claim C8\<close>

text \<open>
  C8. The conversation before a run is a prefix of the conversation after it. A run in
  which a prompt is submitted completes and appends to the conversation, as it stands
  after the greeting step, exactly the user message and then one assistant message.
\<close>

theorem conversation_growth:
  "prefix (messages s) (messages (fst (snd (main inp s))))
   \<and> (fst (setup_google_api inp s) \<and> chat_input inp = Some p \<and> p \<noteq> [] \<longrightarrow>
        fst (main inp s) = Completed
      \<and> (\<exists>r. messages (fst (snd (main inp s))) =
               messages (auto_start s) @
                 [\<lparr>role = ''user'', content = p\<rparr>, \<lparr>role = ''assistant'', content = r\<rparr>])
      \<and> length (messages (fst (snd (main inp s)))) = length (messages (auto_start s)) + 2
      \<and> (messages s \<noteq> [] \<longrightarrow>
           length (messages (fst (snd (main inp s)))) = length (messages s) + 2))"
proof (intro conjI impI)
  show "prefix (messages s) (messages (fst (snd (main inp s))))"
    by (rule main_messages_prefix)
next
  assume a: "fst (setup_google_api inp s) \<and> chat_input inp = Some p \<and> p \<noteq> []"
  let ?call = "call_generate_response (sleep_platform inp) (provider inp) (chat_session s) p
                 (map to_turn (messages (auto_start s)))"
  obtain resp ch where "fst ?call = Return (Tuple resp ch)"
    using call_generate_response_returns_tuple by blast
  then have call: "?call = (Return (Tuple resp ch), snd ?call)"
    by (metis prod.collapse)
  have ok: "fst (setup_google_api inp s)" and ci: "chat_input inp = Some p" and ne: "p \<noteq> []"
    using a by simp_all
  note m = main_prompt(2) [OF ok ci ne call]
  show "fst (main inp s) = Completed"
    by (rule main_prompt(1) [OF ok ci ne call])
  show "\<exists>r. messages (fst (snd (main inp s))) =
               messages (auto_start s) @
                 [\<lparr>role = ''user'', content = p\<rparr>, \<lparr>role = ''assistant'', content = r\<rparr>]"
    using m by blast
  show "length (messages (fst (snd (main inp s)))) = length (messages (auto_start s)) + 2"
    unfolding m by simp
  show "length (messages (fst (snd (main inp s)))) = length (messages s) + 2"
    if "messages s \<noteq> []"
    unfolding m using that by (simp add: auto_start_def)
qed

theorem conversation_growth_witness:
  "prefix (messages greeted_state)
     (messages (fst (snd (main (sample_inputs ''hi'' (always_succeeds hello_response))
        greeted_state))))
   \<and> fst (main (sample_inputs ''hi'' (always_succeeds hello_response)) greeted_state) = Completed
   \<and> length (messages (fst (snd (main (sample_inputs ''hi'' (always_succeeds hello_response))
        greeted_state)))) = 3"
  using conversation_growth [of greeted_state "sample_inputs ''hi'' (always_succeeds hello_response)"
      "''hi''"] sample_setup_ok [of "''hi''" "always_succeeds hello_response" greeted_state]
  by (simp add: sample_inputs_def greeted_state_def)


subsection \<open>Claim C9\<close>

text \<open>
  C9. When the call of the completion client returns no response, the run completes and
  the assistant message appended after the user message is the fixed apology.
\<close>

theorem total_failure_apology:
  assumes "fst (setup_google_api inp s)" "chat_input inp = Some p" "p \<noteq> []"
    and "fst (call_generate_response (sleep_platform inp) (provider inp) (chat_session s) p
           (map to_turn (messages (auto_start s)))) = Return (Tuple None c)"
  shows "fst (main inp s) = Completed
       \<and> messages (fst (snd (main inp s))) =
           messages (auto_start s) @
             [\<lparr>role = ''user'', content = p\<rparr>,
              \<lparr>role = ''assistant'',
               content = ''I'm sorry, I couldn't generate a response. Please try again.''\<rparr>]"
proof -
  obtain evs where call: "call_generate_response (sleep_platform inp) (provider inp) (chat_session s) p
           (map to_turn (messages (auto_start s))) = (Return (Tuple None c), evs)"
    using assms(4) by (metis prod.collapse)
  have "stream_response None = ''I'm sorry, I couldn't generate a response. Please try again.''"
    by (simp add: stream_response_def apology_def)
  then show ?thesis
    using main_prompt(1,2) [OF assms(1,2,3) call] by simp
qed

theorem total_failure_apology_witness:
  "fst (main (sample_inputs ''hi'' (always_fails bad_request_error)) greeted_state) = Completed
   \<and> messages (fst (snd (main (sample_inputs ''hi'' (always_fails bad_request_error))
        greeted_state))) =
       [\<lparr>role = ''assistant'', content = initial_message\<rparr>,
        \<lparr>role = ''user'', content = ''hi''\<rparr>,
        \<lparr>role = ''assistant'',
         content = ''I'm sorry, I couldn't generate a response. Please try again.''\<rparr>]"
proof -
  have call: "fst (call_generate_response (sleep_platform (sample_inputs ''hi'' (always_fails bad_request_error)))
      (provider (sample_inputs ''hi'' (always_fails bad_request_error)))
      (chat_session greeted_state) ''hi'' (map to_turn (messages (auto_start greeted_state)))) =
      Return (Tuple None None)"
    by (simp add: call_generate_response_def sample_inputs_def greeted_state_def
          generate_response_first_other_error [of _ bad_request_error] always_fails_def
          not_overloaded_bad_request)
  have ci: "chat_input (sample_inputs ''hi'' (always_fails bad_request_error)) = Some ''hi''"
    by (simp add: sample_inputs_def)
  show ?thesis
    using total_failure_apology [OF sample_setup_ok ci _ call]
    by (simp add: auto_start_def greeted_state_def)
qed


subsection \<open>Claim C10\<close>

text \<open>
  C10. \<^const>\<open>generate_response\<close> returns the result and performs the effects of
  \<^const>\<open>generate_response_with_retry\<close> with \<open>max_retries = 3\<close> and \<open>retry_delay = 2\<close>.
\<close>

theorem generate_response_defaults:
  "generate_response platform prov prompt h = generate_response_with_retry platform prov prompt h 3 2"
  by (simp add: generate_response_def default_max_retries_def default_retry_delay_def)

theorem generate_response_defaults_witness:
  "generate_response sleeps_through (always_fails bad_request_error) ''hi'' None =
     generate_response_with_retry sleeps_through (always_fails bad_request_error) ''hi'' None 3 2
   \<and> generate_response sleeps_through (always_fails bad_request_error) ''hi'' None =
       (Return (Tuple None None),
        [Attempt (build_request ''hi'' None),
         StError (''Error generating response: '' @ bad_request_error)])"
  using generate_response_defaults [where prov = "always_fails bad_request_error"
      and prompt = "''hi''" and h = None and platform = sleeps_through]
  by (simp add: generate_response_with_retry_def always_fails_def not_overloaded_bad_request
        retry_loop_other_error [where e = bad_request_error])

end
